theory Spec2Isabelle
  imports Complex_Main "HOL-Library.Char_ord" "HOL-Library.List_Lexorder"
    "HOL-Library.Product_Lexorder"
begin

chapter \<open>Poland air quality: the Collector and the Aggregator\<close>

text \<open>
  Two batch jobs are embedded here. The Collector (\<^verbatim>\<open>data_scraper.py\<close>) fetches a daily
  weather series and an hourly air-quality series per city, resamples the second to daily
  means, joins both on the date and writes one CSV. The Aggregator
  (\<^verbatim>\<open>etl_pipeline.py\<close>) reads that CSV and derives ten summary tables.

  Conventions of the embedding:
  \<^item> a float cell is a \<open>real option\<close>; \<open>None\<close> is NaN (a JSON null, an empty CSV cell).
    Comparisons with NaN are false, as in Python. Means are taken over the reals, so
    rounding errors of the float arithmetic are outside the model, and so are infinite
    cells;
  \<^item> \<^verbatim>\<open>print\<close>, \<^verbatim>\<open>time.sleep\<close>, \<^verbatim>\<open>requests.get\<close> and the written files are fields of an
    explicit state;
  \<^item> a Python exception is the left summand of a sum type.
\<close>

section \<open>Collector: data model\<close>

text \<open>
  In the Collector a calendar day is counted in days since 1970-01-01 and a timestamp is a
  day with the minute of that day: the text \<^verbatim>\<open>YYYY-MM-DD\<close> of the weather table and of
  \<^verbatim>\<open>strftime('%Y-%m-%d')\<close>, and the text \<^verbatim>\<open>YYYY-MM-DDTHH:MM\<close> read by
  \<^verbatim>\<open>pd.to_datetime\<close>, are held by the day and the timestamp they denote.
\<close>

type_synonym day = int

record weather_row =
  w_time :: day
  w_temperature_2m_mean :: "real option"
  w_wind_speed_10m_max :: "real option"
  w_precipitation_sum :: "real option"

record hourly_row =
  h_day :: day
  h_minute :: nat
  h_pm10 :: "real option"
  h_pm2_5 :: "real option"

record daily_row =
  d_time :: day
  d_pm10 :: "real option"
  d_pm2_5 :: "real option"

record merged_row =
  m_time :: day
  m_temperature_2m_mean :: "real option"
  m_wind_speed_10m_max :: "real option"
  m_precipitation_sum :: "real option"
  m_pm10 :: "real option"
  m_pm2_5 :: "real option"
  m_city :: string

text \<open>
  What \<^verbatim>\<open>response.json()\<close> returns: a JSON value, \<open>JNull\<close> being Python's \<^verbatim>\<open>None\<close>.
  An object of parallel arrays in the layout of the API (\<^verbatim>\<open>"time"\<close> and the metrics
  asked for in the URL) is held as the list of its rows: \<open>JDaily\<close> for the layout of the
  weather API, \<open>JHourly\<close> for that of the air-quality API.
\<close>

datatype json =
    JNull
  | JBool bool
  | JNum real
  | JStr string
  | JArr "json list"
  | JObj "(string \<times> json) list"
  | JDaily "weather_row list"
  | JHourly "hourly_row list"

datatype exn = KeyError | TypeError | ValueError | FileNotFoundError | IntCastingNaNError

text \<open>Truthiness of a Python value (\<^verbatim>\<open>not w_data\<close>).\<close>

fun truthy :: "json \<Rightarrow> bool" where
  "truthy JNull = False"
| "truthy (JBool b) = b"
| "truthy (JNum x) = (x \<noteq> 0)"
| "truthy (JStr s) = (s \<noteq> [])"
| "truthy (JArr xs) = (xs \<noteq> [])"
| "truthy (JObj kvs) = (kvs \<noteq> [])"
| "truthy (JDaily rows) = True"
| "truthy (JHourly rows) = True"

text \<open>\<^verbatim>\<open>data[key]\<close> with a string key: only a dict has one.\<close>

fun getitem :: "json \<Rightarrow> string \<Rightarrow> exn + json" where
  "getitem (JObj kvs) k = (case map_of kvs k of None \<Rightarrow> Inl KeyError | Some v \<Rightarrow> Inr v)"
| "getitem v k = Inl TypeError"

text \<open>Whether \<open>needle\<close> occurs in \<open>s\<close> as a contiguous run (Python's \<^verbatim>\<open>in\<close> on strings).\<close>

fun substring :: "string \<Rightarrow> string \<Rightarrow> bool" where
  "substring needle [] = (needle = [])"
| "substring needle (c # cs) = (take (length needle) (c # cs) = needle \<or> substring needle cs)"

text \<open>
  \<^verbatim>\<open>key in data\<close>: a key of a dict, an element of a list, a substring of a string; any
  other value is not iterable. The two table layouts are dicts whose keys are their columns.
\<close>

fun contains :: "string \<Rightarrow> json \<Rightarrow> exn + bool" where
  "contains k (JObj kvs) = Inr (k \<in> set (map fst kvs))"
| "contains k (JArr xs) = Inr (JStr k \<in> set xs)"
| "contains k (JStr s) = Inr (substring k s)"
| "contains k (JDaily rows) =
     Inr (k \<in> set [''time'', ''temperature_2m_mean'', ''wind_speed_10m_max'', ''precipitation_sum''])"
| "contains k (JHourly rows) = Inr (k \<in> set [''time'', ''pm10'', ''pm2_5''])"
| "contains k v = Inl TypeError"

text \<open>
  \<^verbatim>\<open>pd.DataFrame(w_data['daily'])\<close> and \<^verbatim>\<open>pd.DataFrame(a_data['hourly'])\<close> followed by
  \<^verbatim>\<open>pd.to_datetime\<close> of the time column. The model covers the layout of the API. On a
  value in another layout pandas raises at once, raises later in the \<^verbatim>\<open>try\<close> block, or builds
  a frame of another shape; here such a value is taken to the exception path, so what is
  stated about the tables of a city is stated for the API's layout.
\<close>

fun DataFrame_daily :: "json \<Rightarrow> exn + weather_row list" where
  "DataFrame_daily (JDaily rows) = Inr rows"
| "DataFrame_daily v = Inl ValueError"

fun DataFrame_hourly :: "json \<Rightarrow> exn + hourly_row list" where
  "DataFrame_hourly (JHourly rows) = Inr rows"
| "DataFrame_hourly v = Inl ValueError"

text \<open>Sequencing of two steps that may raise.\<close>

definition and_then :: "exn + 'a \<Rightarrow> ('a \<Rightarrow> exn + 'b) \<Rightarrow> exn + 'b" where
  "and_then r f = (case r of Inl e \<Rightarrow> Inl e | Inr v \<Rightarrow> f v)"

section \<open>Collector: the world\<close>

datatype url = Weather_url real real | Air_url real real

text \<open>
  One answer of \<^verbatim>\<open>requests.get\<close>: a status code with the body as \<^verbatim>\<open>response.json()\<close>
  parses it (\<open>None\<close> when the body is not JSON and the call raises), or an exception of
  the transport (which includes the 90 s timeout).
\<close>

datatype response = Http nat "json option" | Raised

text \<open>What is printed, one message for each report (a report of several lines is one).\<close>

datatype message =
    Starting
  | Progress nat nat
  | Fetching string
  | Rate_limit_hit nat
  | Server_error nat nat
  | HTTP_error nat
  | Network_error nat nat
  | Weather_API_Error
  | Air_Quality_API_Error
  | Missing_hourly_data
  | Data_Processing_Error
  | Success nat
  | Process_completed nat
  | Failed_to_fetch_data

text \<open>
  The network is a function from the URL and the number of requests made before to the
  answer. The state counts the requests, logs every sleep (in seconds) and every printed
  message, oldest first, and holds the files on disk.
\<close>

type_synonym network = "url \<Rightarrow> nat \<Rightarrow> response"

record state =
  requested :: nat
  slept :: "nat list"
  printed :: "message list"
  files :: "string \<rightharpoonup> merged_row list"

definition sleep :: "nat \<Rightarrow> state \<Rightarrow> state" where
  "sleep n s = s\<lparr>slept := slept s @ [n]\<rparr>"

definition print :: "message \<Rightarrow> state \<Rightarrow> state" where
  "print m s = s\<lparr>printed := printed s @ [m]\<rparr>"

definition OUTPUT_FILENAME :: string where
  "OUTPUT_FILENAME = ''dane_polska_2004_2026.csv''"

text \<open>The state before the run: nothing requested, slept, printed or written.\<close>

definition initial_state :: state where
  "initial_state = \<lparr>requested = 0, slept = [], printed = [], files = Map.empty\<rparr>"

section \<open>Collector: \<^verbatim>\<open>safe_request\<close>\<close>

text \<open>
  The loop \<^verbatim>\<open>for attempt in range(retries)\<close>: with \<open>Suc left\<close> attempts remaining the
  loop variable is \<open>retries - Suc left\<close>, and the messages print it plus one. A 200 whose
  body does not parse raises inside the \<^verbatim>\<open>try\<close> and is handled as a network error.
\<close>

fun attempts :: "network \<Rightarrow> url \<Rightarrow> nat \<Rightarrow> nat \<Rightarrow> nat \<Rightarrow> state \<Rightarrow> json \<times> state" where
  "attempts net u retries wait_time 0 s = (JNull, s)"
| "attempts net u retries wait_time (Suc left) s =
     (let attempt = retries - Suc left;
          s1 = s\<lparr>requested := Suc (requested s)\<rparr>
      in case net u (requested s) of
           Raised \<Rightarrow>
             attempts net u retries wait_time left
               (sleep wait_time (print (Network_error (attempt + 1) retries) s1))
         | Http status_code body \<Rightarrow>
             if status_code = 200 then
               (case body of
                  Some v \<Rightarrow> (v, s1)
                | None \<Rightarrow>
                    attempts net u retries wait_time left
                      (sleep wait_time (print (Network_error (attempt + 1) retries) s1)))
             else if status_code = 429 then
               attempts net u retries wait_time left
                 (sleep wait_time (print (Rate_limit_hit wait_time) s1))
             else if status_code \<ge> 500 then
               attempts net u retries wait_time left
                 (sleep wait_time (print (Server_error (attempt + 1) retries) s1))
             else
               attempts net u retries wait_time left
                 (sleep 2 (print (HTTP_error status_code) s1)))"

definition safe_request :: "network \<Rightarrow> url \<Rightarrow> nat \<Rightarrow> nat \<Rightarrow> state \<Rightarrow> json \<times> state" where
  "safe_request net u retries wait_time s = attempts net u retries wait_time retries s"

section \<open>Collector: resampling and the join\<close>

text \<open>The mean of a column that skips NaN; NaN when nothing is left.\<close>

definition nanmean :: "real option list \<Rightarrow> real option" where
  "nanmean cells =
     (let xs = List.map_filter (\<lambda>c. c) cells
      in if xs = [] then None else Some (sum_list xs / real (length xs)))"

text \<open>
  \<^verbatim>\<open>set_index('time').resample('D').mean().reset_index()\<close>: one bin per calendar day from
  the first to the last day of the index, empty bins included (their means are NaN).
\<close>

definition resample_D_mean :: "hourly_row list \<Rightarrow> daily_row list" where
  "resample_D_mean rows =
     (case map h_day rows of
        [] \<Rightarrow> []
      | d # ds \<Rightarrow>
          map (\<lambda>b. \<lparr>d_time = b,
                     d_pm10 = nanmean (map h_pm10 (filter (\<lambda>r. h_day r = b) rows)),
                     d_pm2_5 = nanmean (map h_pm2_5 (filter (\<lambda>r. h_day r = b) rows))\<rparr>)
              [fold min ds d .. fold max ds d])"

definition join_rows :: "weather_row \<Rightarrow> daily_row \<Rightarrow> merged_row" where
  "join_rows w a =
     \<lparr>m_time = w_time w,
      m_temperature_2m_mean = w_temperature_2m_mean w,
      m_wind_speed_10m_max = w_wind_speed_10m_max w,
      m_precipitation_sum = w_precipitation_sum w,
      m_pm10 = d_pm10 a,
      m_pm2_5 = d_pm2_5 a,
      m_city = []\<rparr>"

text \<open>
  \<^verbatim>\<open>pd.merge(df_weather, df_air_daily, on='time')\<close>: \<^verbatim>\<open>how\<close> defaults to \<^verbatim>\<open>'inner'\<close>.
  Every pair of a left and a right row with the same key gives a row, in the order of the
  left rows.
\<close>

definition merge_on_time :: "weather_row list \<Rightarrow> daily_row list \<Rightarrow> merged_row list" where
  "merge_on_time df_weather df_air_daily =
     concat (map (\<lambda>w. map (join_rows w) (filter (\<lambda>a. d_time a = w_time w) df_air_daily))
       df_weather)"

section \<open>Collector: \<^verbatim>\<open>get_historical_data\<close> and \<^verbatim>\<open>run_scraper\<close>\<close>

text \<open>The body of the \<^verbatim>\<open>try\<close>: any exception gives the empty frame.\<close>

definition process :: "string \<Rightarrow> json \<Rightarrow> json \<Rightarrow> state \<Rightarrow> merged_row list \<times> state" where
  "process city_name w_data a_data s =
     (case and_then (getitem w_data ''daily'') DataFrame_daily of
        Inl e \<Rightarrow> ([], print Data_Processing_Error s)
      | Inr df_weather \<Rightarrow>
          (case contains ''hourly'' a_data of
             Inl e \<Rightarrow> ([], print Data_Processing_Error s)
           | Inr False \<Rightarrow> ([], print Missing_hourly_data s)
           | Inr True \<Rightarrow>
               (case and_then (getitem a_data ''hourly'') DataFrame_hourly of
                  Inl e \<Rightarrow> ([], print Data_Processing_Error s)
                | Inr df_air_hourly \<Rightarrow>
                    (let df_air_daily = resample_D_mean df_air_hourly;
                         final_df = map (\<lambda>r. r\<lparr>m_city := city_name\<rparr>)
                                      (merge_on_time df_weather df_air_daily)
                     in (final_df, print (Success (length final_df)) s)))))"

definition get_historical_data ::
    "network \<Rightarrow> string \<Rightarrow> real \<Rightarrow> real \<Rightarrow> state \<Rightarrow> merged_row list \<times> state" where
  "get_historical_data net city_name lat lon s =
     (let (w_data, s1) = safe_request net (Weather_url lat lon) 5 10 (print (Fetching city_name) s)
      in if \<not> truthy w_data then ([], print Weather_API_Error s1)
         else
           (let (a_data, s2) = safe_request net (Air_url lat lon) 5 10 (sleep 1 s1)
            in if \<not> truthy a_data then ([], print Air_Quality_API_Error s2)
               else process city_name w_data a_data s2))"

text \<open>
  The loop over \<^verbatim>\<open>CITIES.items()\<close>, numbered from \<open>i\<close>; \<open>n\<close> is \<^verbatim>\<open>len(CITIES)\<close>. A frame
  with no row is \<^verbatim>\<open>df.empty\<close> and is not appended.
\<close>

fun cities_loop ::
    "network \<Rightarrow> nat \<Rightarrow> nat \<Rightarrow> (string \<times> real \<times> real) list \<Rightarrow> merged_row list list \<Rightarrow> state
      \<Rightarrow> merged_row list list \<times> state" where
  "cities_loop net n i [] all_data s = (all_data, s)"
| "cities_loop net n i ((city, lat, lon) # rest) all_data s =
     (let (df, s1) = get_historical_data net city lat lon (print (Progress i n) s)
      in cities_loop net n (Suc i) rest (if df \<noteq> [] then all_data @ [df] else all_data)
           (sleep 2 s1))"

definition run_scraper :: "network \<Rightarrow> (string \<times> real \<times> real) list \<Rightarrow> state \<Rightarrow> state" where
  "run_scraper net cities s =
     (let (all_data, s1) = cities_loop net (length cities) 1 cities [] (print Starting s)
      in if all_data \<noteq> [] then
           (let total_df = concat all_data
            in print (Process_completed (length total_df))
                 (s1\<lparr>files := (files s1)(OUTPUT_FILENAME \<mapsto> total_df)\<rparr>))
         else print Failed_to_fetch_data s1)"

text \<open>The table \<^verbatim>\<open>CITIES\<close>; names are UTF-8 bytes.\<close>

definition CITIES :: "(string \<times> real \<times> real) list" where
  "CITIES =
    [(''Warszawa'', 52.23, 21.01),
     (''Krak'' @ [CHR 0xC3, CHR 0xB3] @ ''w'', 50.06, 19.94),
     ([CHR 0xC5, CHR 0x81, CHR 0xC3, CHR 0xB3] @ ''d'' @ [CHR 0xC5, CHR 0xBA], 51.75, 19.46),
     (''Wroc'' @ [CHR 0xC5, CHR 0x82] @ ''aw'', 51.11, 17.03),
     (''Pozna'' @ [CHR 0xC5, CHR 0x84], 52.41, 16.92),
     (''Gda'' @ [CHR 0xC5, CHR 0x84] @ ''sk'', 54.35, 18.65),
     (''Szczecin'', 53.43, 14.55),
     (''Bydgoszcz'', 53.12, 18.00),
     (''Lublin'', 51.25, 22.57),
     (''Bia'' @ [CHR 0xC5, CHR 0x82] @ ''ystok'', 53.13, 23.16),
     (''Katowice'', 50.26, 19.02),
     (''Gdynia'', 54.52, 18.53),
     (''Cz'' @ [CHR 0xC4, CHR 0x99] @ ''stochowa'', 50.81, 19.12),
     (''Radom'', 51.40, 21.15),
     (''Toru'' @ [CHR 0xC5, CHR 0x84], 53.01, 18.60),
     (''Sosnowiec'', 50.28, 19.10),
     (''Kielce'', 50.87, 20.63),
     (''Rzesz'' @ [CHR 0xC3, CHR 0xB3] @ ''w'', 50.04, 21.99),
     (''Gliwice'', 50.29, 18.67),
     (''Zabrze'', 50.32, 18.79)]"

section \<open>Collector: example payloads\<close>

text \<open>
  A weather series over the days 0, 1 and 2, an hourly air-quality series with two hours on
  day 1 and one on day 3, the two bodies that carry them, a body of the air-quality API that
  reports an error, and the network that answers every request with a 200 and these bodies.
\<close>

definition ex_weather :: "weather_row list" where
  "ex_weather =
     [\<lparr>w_time = 0, w_temperature_2m_mean = Some 1, w_wind_speed_10m_max = Some 12,
       w_precipitation_sum = Some 0\<rparr>,
      \<lparr>w_time = 1, w_temperature_2m_mean = Some 2, w_wind_speed_10m_max = Some 8,
       w_precipitation_sum = Some 3\<rparr>,
      \<lparr>w_time = 2, w_temperature_2m_mean = Some 3, w_wind_speed_10m_max = None,
       w_precipitation_sum = Some 0\<rparr>]"

definition ex_hourly :: "hourly_row list" where
  "ex_hourly =
     [\<lparr>h_day = 1, h_minute = 0, h_pm10 = Some 10, h_pm2_5 = Some 4\<rparr>,
      \<lparr>h_day = 1, h_minute = 60, h_pm10 = Some 30, h_pm2_5 = None\<rparr>,
      \<lparr>h_day = 3, h_minute = 0, h_pm10 = Some 50, h_pm2_5 = Some 20\<rparr>]"

definition ex_w_data :: json where
  "ex_w_data = JObj [(''latitude'', JNum 52.23), (''daily'', JDaily ex_weather)]"

definition ex_a_data :: json where
  "ex_a_data = JObj [(''latitude'', JNum 52.23), (''hourly'', JHourly ex_hourly)]"

definition answering :: "json \<Rightarrow> json \<Rightarrow> network" where
  "answering w a u n =
     (case u of
        Weather_url lat lon \<Rightarrow> Http 200 (Some w)
      | Air_url lat lon \<Rightarrow> Http 200 (Some a))"

definition ex_a_error :: json where
  "ex_a_error = JObj [(''error'', JBool True), (''reason'', JStr ''Invalid date'')]"

section \<open>Aggregator: data model\<close>

text \<open>
  A parsed \<^verbatim>\<open>time\<close> cell (\<^verbatim>\<open>pd.to_datetime\<close>) with the three fields the script reads. A
  row of the Collector's CSV as \<^verbatim>\<open>pd.read_csv\<close> loads it.
\<close>

record timestamp =
  year :: int
  month :: int
  day :: int

record obs =
  time :: timestamp
  temperature_2m_mean :: "real option"
  wind_speed_10m_max :: "real option"
  precipitation_sum :: "real option"
  pm10 :: "real option"
  pm2_5 :: "real option"
  city :: string






definition Month :: "obs \<Rightarrow> int" where
  "Month r = month (time r)"




section \<open>Aggregator: group-by\<close>

text \<open>
  \<^verbatim>\<open>df.groupby(key)[col].mean().reset_index()\<close>: one row per distinct key, keys ascending,
  with the mean of the column over the group, NaN skipped. \<^verbatim>\<open>groupby(key).size()\<close> counts
  the rows of each group.
\<close>

definition groupby_mean ::
    "('r \<Rightarrow> 'k::linorder) \<Rightarrow> ('r \<Rightarrow> real option) \<Rightarrow> 'r list \<Rightarrow> ('k \<times> real option) list" where
  "groupby_mean key col df =
     map (\<lambda>k. (k, nanmean (map col (filter (\<lambda>r. key r = k) df)))) (sort (remdups (map key df)))"

definition groupby_size :: "('r \<Rightarrow> 'k::linorder) \<Rightarrow> 'r list \<Rightarrow> ('k \<times> nat) list" where
  "groupby_size key df =
     map (\<lambda>k. (k, length (filter (\<lambda>r. key r = k) df))) (sort (remdups (map key df)))"

text \<open>Python's \<^verbatim>\<open>x > c\<close> on a float cell: false on NaN.\<close>

definition gt :: "real option \<Rightarrow> real \<Rightarrow> bool" where
  "gt x c = (case x of None \<Rightarrow> False | Some v \<Rightarrow> v > c)"

definition lt :: "real option \<Rightarrow> real \<Rightarrow> bool" where
  "lt x c = (case x of None \<Rightarrow> False | Some v \<Rightarrow> v < c)"

section \<open>Aggregator: the summaries\<close>




text \<open>
  The ranking: the rows with \<^verbatim>\<open>pm10 > 50\<close> counted per city, sorted by the count,
  largest first, and cut after ten rows. pandas does not fix the order of rows with equal
  counts; here they keep the order of the group-by (city names ascending).
\<close>

definition city_stats :: "obs list \<Rightarrow> (string \<times> nat) list" where
  "city_stats df =
     take 10 (sort_key (\<lambda>g. - int (snd g)) (groupby_size city (filter (\<lambda>r. gt (pm10 r) 50) df)))"








definition classify_scenario :: "obs \<Rightarrow> string" where
  "classify_scenario row =
     (let t = temperature_2m_mean row; w = wind_speed_10m_max row
      in if lt t 5 \<and> lt w 10 then ''1. ZIMNO I BEZWIETRZNIE''
         else if lt t 5 \<and> gt w 20 then ''2. ZIMNO Z WIATREM''
         else if gt t 15 then ''3. LATO''
         else ''4. INNE'')"

definition scenarios :: "obs list \<Rightarrow> (string \<times> real option) list" where
  "scenarios df = filter (\<lambda>g. fst g \<noteq> ''4. INNE'') (groupby_mean classify_scenario pm10 df)"


definition get_newyear_label :: "obs \<Rightarrow> string option" where
  "get_newyear_label row =
     (let m = Month row; d = day (time row)
      in if m = 12 \<and> d = 29 then Some ''1. 29 Grudnia''
         else if m = 12 \<and> d = 30 then Some ''2. 30 Grudnia''
         else if m = 12 \<and> d = 31 then Some ''3. SYLWESTER''
         else if m = 1 \<and> d = 1 then Some ''4. NOWY ROK''
         else if m = 1 \<and> d = 2 then Some ''5. 2 Stycznia''
         else if m = 1 \<and> d = 3 then Some ''6. 3 Stycznia''
         else None)"

text \<open>
  \<^verbatim>\<open>df.dropna(subset=['NewYear_Label']).groupby('NewYear_Label')['pm10'].mean()\<close>: the
  rows without a label are dropped, the others grouped by their label.
\<close>

definition new_year_stats :: "obs list \<Rightarrow> (string \<times> real option) list" where
  "new_year_stats df =
     groupby_mean fst snd
       (List.map_filter (\<lambda>r. map_option (\<lambda>l. (l, pm10 r)) (get_newyear_label r)) df)"



section \<open>Aggregator: the script\<close>




section \<open>Aggregator: example rows\<close>

text \<open>
  Rows with all weather cells and PM10 present; a small table around two turns of the year,
  and a table in which eleven cities have a day above the threshold.
\<close>

definition mk_obs :: "int \<Rightarrow> int \<Rightarrow> int \<Rightarrow> real \<Rightarrow> real \<Rightarrow> real \<Rightarrow> string \<Rightarrow> obs" where
  "mk_obs y m d t w p c =
     \<lparr>time = \<lparr>year = y, month = m, day = d\<rparr>, temperature_2m_mean = Some t,
      wind_speed_10m_max = Some w, precipitation_sum = Some 0, pm10 = Some p, pm2_5 = None,
      city = c\<rparr>"

definition ex_rows :: "obs list" where
  "ex_rows =
     [mk_obs 2015 12 31 0 5 80 ''Katowice'',
      mk_obs 2016 1 1 0 5 60 ''Katowice'',
      mk_obs 2020 1 1 0 25 70 ''Radom'',
      mk_obs 2020 1 4 20 25 10 ''Radom'',
      mk_obs 2020 7 4 10 12.5 55 ''Katowice'']"

definition ex_smog_days :: "obs list" where
  "ex_smog_days =
     map (\<lambda>c. mk_obs 2020 1 10 0 5 60 c)
       [''Warszawa'', ''Katowice'', ''Radom'', ''Lublin'', ''Gdynia'', ''Kielce'', ''Gliwice'',
        ''Zabrze'', ''Szczecin'', ''Bydgoszcz'', ''Sosnowiec'']
     @ [mk_obs 2020 1 11 0 5 50 ''Warszawa'', mk_obs 2020 1 12 0 5 90 ''Zabrze'']"

chapter \<open>Properties of the Collector\<close>

section \<open>The retry policy of \<^verbatim>\<open>safe_request\<close>\<close>

text \<open>
  While every remaining attempt is answered by a 500, the loop consumes all of them, sleeps
  the delay after each and returns \<^verbatim>\<open>None\<close>.
\<close>

lemma attempts_server_errors:
  "\<forall>i<left. \<exists>b. net u (requested s + i) = Http 500 b \<Longrightarrow>
   fst (attempts net u retries w left s) = JNull \<and>
   requested (snd (attempts net u retries w left s)) = requested s + left \<and>
   slept (snd (attempts net u retries w left s)) = slept s @ replicate left w"
proof (induction left arbitrary: s)
  case 0
  then show ?case by simp
next
  case (Suc left)
  from Suc.prems obtain b where b: "net u (requested s) = Http 500 b" by force
  define s' where "s' = sleep w (print (Server_error (retries - Suc left + 1) retries)
              (s\<lparr>requested := Suc (requested s)\<rparr>))"
  have step: "attempts net u retries w (Suc left) s = attempts net u retries w left s'"
    using b by (simp add: s'_def)
  have r: "requested s' = Suc (requested s)" and sl: "slept s' = slept s @ [w]"
    by (simp_all add: s'_def sleep_def print_def)
  have "\<forall>i<left. \<exists>b. net u (requested s' + i) = Http 500 b"
  proof (intro allI impI)
    fix i assume "i < left"
    then have "Suc i < Suc left" by simp
    with Suc.prems have "\<exists>b. net u (requested s + Suc i) = Http 500 b" by blast
    then show "\<exists>b. net u (requested s' + i) = Http 500 b" by (simp add: r)
  qed
  from Suc.IH [OF this] show ?case
    by (simp only: step r sl) (simp add: replicate_append_same)
qed

text \<open>
  Claim C2. With \<^verbatim>\<open>retries=5\<close>: when the next three answers are 500, 500 and a 200 with a
  JSON body, \<^verbatim>\<open>safe_request\<close> returns that body after three requests and exactly two
  sleeps of the delay; when the next five answers are all 500 it returns \<^verbatim>\<open>None\<close> (a
  value, not an exception) after exactly five requests, having slept the delay after each.
\<close>

theorem safe_request_retry_policy:
  "(net u (requested s) = Http 500 b0 \<and> net u (requested s + 1) = Http 500 b1 \<and>
    net u (requested s + 2) = Http 200 (Some v)
    \<longrightarrow> fst (safe_request net u 5 w s) = v
        \<and> requested (snd (safe_request net u 5 w s)) = requested s + 3
        \<and> slept (snd (safe_request net u 5 w s)) = slept s @ [w, w])
   \<and> ((\<forall>i<5. \<exists>b. net u (requested s + i) = Http 500 b)
    \<longrightarrow> fst (safe_request net u 5 w s) = JNull
        \<and> requested (snd (safe_request net u 5 w s)) = requested s + 5
        \<and> slept (snd (safe_request net u 5 w s)) = slept s @ replicate 5 w)"
proof (intro conjI impI)
  assume h: "net u (requested s) = Http 500 b0 \<and> net u (requested s + 1) = Http 500 b1 \<and>
    net u (requested s + 2) = Http 200 (Some v)"
  have e: "safe_request net u 5 w s = (v, (sleep w (print (Server_error 2 5) (sleep w (print (Server_error 1 5) (s\<lparr>requested := Suc (requested s)\<rparr>))\<lparr>requested := Suc (Suc (requested s))\<rparr>)))\<lparr>requested := Suc (Suc (Suc (requested s)))\<rparr>)"
    using h by (simp add: safe_request_def eval_nat_numeral sleep_def print_def)
  show "fst (safe_request net u 5 w s) = v" by (simp add: e)
  show "requested (snd (safe_request net u 5 w s)) = requested s + 3" by (simp add: e)
  show "slept (snd (safe_request net u 5 w s)) = slept s @ [w, w]" by (simp add: e sleep_def print_def)
next
  assume h: "\<forall>i<5. \<exists>b. net u (requested s + i) = Http 500 b"
  from h attempts_server_errors [where left = 5 and retries = 5 and w = w and s = s and net = net and u = u]
  show "fst (safe_request net u 5 w s) = JNull"
    and "requested (snd (safe_request net u 5 w s)) = requested s + 5"
    and "slept (snd (safe_request net u 5 w s)) = slept s @ replicate 5 w"
    by (simp_all add: safe_request_def)
qed

theorem safe_request_retry_policy_witness:
  "fst (safe_request (\<lambda>u n. if n = 2 then Http 200 (Some (JObj [(''daily'', JDaily [])])) else Http 500 None)
          (Weather_url 52.23 21.01) 5 10 initial_state) = JObj [(''daily'', JDaily [])]
   \<and> slept (snd (safe_request (\<lambda>u n. if n = 2 then Http 200 (Some (JObj [(''daily'', JDaily [])])) else Http 500 None)
          (Weather_url 52.23 21.01) 5 10 initial_state)) = [10, 10]
   \<and> fst (safe_request (\<lambda>u n. Http 500 None) (Weather_url 52.23 21.01) 5 10 initial_state) = JNull
   \<and> requested (snd (safe_request (\<lambda>u n. Http 500 None) (Weather_url 52.23 21.01) 5 10 initial_state)) = 5"
  using safe_request_retry_policy [of "\<lambda>u n. if n = 2 then Http 200 (Some (JObj [(''daily'', JDaily [])])) else Http 500 None"
      "Weather_url 52.23 21.01" initial_state None None "JObj [(''daily'', JDaily [])]" 10]
    safe_request_retry_policy [of "\<lambda>u n. Http 500 None" "Weather_url 52.23 21.01" initial_state None None JNull 10]
  by (simp add: initial_state_def)

section \<open>The join and the resampling\<close>




























section \<open>Failures of a city\<close>

lemma files_sleep: "files (sleep n s) = files s"
  by (simp add: sleep_def)

lemma files_print: "files (print m s) = files s"
  by (simp add: print_def)

lemma printed_print: "printed (print m s) = printed s @ [m]"
  by (simp add: print_def)

lemma files_attempts: "files (snd (attempts net u retries w left s)) = files s"
  by (induction left arbitrary: s)
     (auto simp: files_sleep files_print Let_def split: response.splits option.splits)

lemma files_safe_request: "files (snd (safe_request net u retries w s)) = files s"
  by (simp add: safe_request_def files_attempts)

lemma files_process: "files (snd (process c w a s)) = files s"
  by (auto simp: process_def files_print Let_def split: sum.splits bool.splits)

lemma files_get_historical_data: "files (snd (get_historical_data net c lat lon s)) = files s"
proof -
  obtain w_data s1 where w: "safe_request net (Weather_url lat lon) 5 10 (print (Fetching c) s) = (w_data, s1)"
    by (cases "safe_request net (Weather_url lat lon) 5 10 (print (Fetching c) s)") auto
  obtain a_data s2 where a: "safe_request net (Air_url lat lon) 5 10 (sleep 1 s1) = (a_data, s2)"
    by (cases "safe_request net (Air_url lat lon) 5 10 (sleep 1 s1)") auto
  have f1: "files s1 = files s"
    using files_safe_request [of net "Weather_url lat lon" 5 10 "print (Fetching c) s"]
    unfolding w by (simp add: files_print)
  have f2: "files s2 = files s"
    using files_safe_request [of net "Air_url lat lon" 5 10 "sleep 1 s1"]
    unfolding a by (simp add: files_sleep f1)
  show ?thesis
    by (simp add: get_historical_data_def w a files_print files_process f1 f2 del: One_nat_def)
qed

lemma files_cities_loop: "files (snd (cities_loop net n i cs all_data s)) = files s"
proof (induction cs arbitrary: i all_data s)
  case Nil
  show ?case by simp
next
  case (Cons c cs)
  obtain city_name lat lon where c: "c = (city_name, lat, lon)" by (cases c) auto
  obtain df s1 where g: "get_historical_data net city_name lat lon (print (Progress i n) s) = (df, s1)"
    by (cases "get_historical_data net city_name lat lon (print (Progress i n) s)") auto
  have "files s1 = files s"
    using files_get_historical_data [of net city_name lat lon "print (Progress i n) s"]
    by (simp add: g files_print)
  then show ?case
    by (simp add: c g Cons.IH files_sleep)
qed

lemma process_missing_hourly:
  "contains ''hourly'' a_data = Inr False \<Longrightarrow> fst (process c w_data a_data s) = []"
  by (simp add: process_def split: sum.splits)

lemma weather_no_data:
  assumes "\<not> truthy (fst (safe_request net (Weather_url lat lon) 5 10 (print (Fetching city_name) s)))"
  shows "get_historical_data net city_name lat lon s =
           ([], print Weather_API_Error
                  (snd (safe_request net (Weather_url lat lon) 5 10 (print (Fetching city_name) s))))"
  using assms by (simp add: get_historical_data_def case_prod_beta)

lemma air_no_data:
  assumes "truthy (fst (safe_request net (Weather_url lat lon) 5 10 (print (Fetching city_name) s)))"
      and "\<not> truthy (fst (safe_request net (Air_url lat lon) 5 10
              (sleep 1 (snd (safe_request net (Weather_url lat lon) 5 10 (print (Fetching city_name) s))))))"
  shows "get_historical_data net city_name lat lon s =
           ([], print Air_Quality_API_Error
                  (snd (safe_request net (Air_url lat lon) 5 10
              (sleep 1 (snd (safe_request net (Weather_url lat lon) 5 10 (print (Fetching city_name) s)))))))"
  using assms by (simp add: get_historical_data_def case_prod_beta del: One_nat_def)

lemma first_answer_200:
  "net u (requested s) = Http 200 (Some v) \<Longrightarrow>
   safe_request net u 5 w s = (v, s\<lparr>requested := Suc (requested s)\<rparr>)"
  by (simp add: safe_request_def eval_nat_numeral)

text \<open>
  Claim C5. When the weather fetch of a city returns no data, or its air-quality fetch
  returns no data, or the air-quality body has no \<^verbatim>\<open>hourly\<close> key, the city gives no row, and
  the loop goes on with the remaining cities and the frames collected so far.
\<close>

theorem failed_city_contributes_nothing:
  assumes "safe_request net (Weather_url lat lon) 5 10
             (print (Fetching city_name) (print (Progress i n) s)) = (w_data, s1)"
      and "safe_request net (Air_url lat lon) 5 10 (sleep 1 s1) = (a_data, s2)"
      and "\<not> truthy w_data \<or> \<not> truthy a_data \<or> contains ''hourly'' a_data = Inr False"
  shows "fst (get_historical_data net city_name lat lon (print (Progress i n) s)) = []
       \<and> cities_loop net n i ((city_name, lat, lon) # rest) all_data s =
           cities_loop net n (Suc i) rest all_data
             (sleep 2 (snd (get_historical_data net city_name lat lon (print (Progress i n) s))))"
proof -
  have rows: "fst (get_historical_data net city_name lat lon (print (Progress i n) s)) = []"
    using assms by (auto simp: get_historical_data_def process_missing_hourly)
  obtain df s3 where g: "get_historical_data net city_name lat lon (print (Progress i n) s) = (df, s3)"
    by (cases "get_historical_data net city_name lat lon (print (Progress i n) s)") auto
  with rows have "df = []" by simp
  then show ?thesis using rows by (simp add: g)
qed

theorem failed_city_contributes_nothing_witness:
  "fst (get_historical_data (answering ex_w_data ex_a_error) ''Warszawa'' 52.23 21.01
          (print (Progress 1 20) initial_state)) = []
   \<and> cities_loop (answering ex_w_data ex_a_error) 20 1
        [(''Warszawa'', 52.23, 21.01), (''Zabrze'', 50.32, 18.79)] [] initial_state =
      cities_loop (answering ex_w_data ex_a_error) 20 (Suc 1) [(''Zabrze'', 50.32, 18.79)] []
        (sleep 2 (snd (get_historical_data (answering ex_w_data ex_a_error) ''Warszawa'' 52.23 21.01
          (print (Progress 1 20) initial_state))))"
proof -
  let ?net = "answering ex_w_data ex_a_error"
  let ?w = "safe_request ?net (Weather_url 52.23 21.01) 5 10
              (print (Fetching ''Warszawa'') (print (Progress 1 20) initial_state))"
  let ?a = "safe_request ?net (Air_url 52.23 21.01) 5 10 (sleep 1 (snd ?w))"
  have h1: "?w = (fst ?w, snd ?w)" and h2: "?a = (fst ?a, snd ?a)"
    by simp_all
  have "fst ?a = ex_a_error"
    by (simp add: safe_request_def eval_nat_numeral answering_def)
  then have "contains ''hourly'' (fst ?a) = Inr False"
    by (simp add: ex_a_error_def)
  then have h3: "\<not> truthy (fst ?w) \<or> \<not> truthy (fst ?a) \<or> contains ''hourly'' (fst ?a) = Inr False"
    by blast
  show ?thesis
    by (rule failed_city_contributes_nothing [OF h1 h2 h3])
qed

text \<open>
  Claim C10. A 200 whose JSON body is falsy is handled as no data: when the weather
  request is answered so, the city gives no row and the weather API error is printed, after
  one request and no sleep; when the weather body is truthy and the air-quality request is
  answered so, the city gives no row and the air-quality API error is printed. Five 500s
  on the weather request (exhausted retries) end in the same way as the first case.
\<close>

theorem falsy_body_is_no_data:
  assumes "\<not> truthy v"
  shows "(net (Weather_url lat lon) (requested s) = Http 200 (Some v) \<longrightarrow>
            fst (get_historical_data net city_name lat lon s) = []
          \<and> last (printed (snd (get_historical_data net city_name lat lon s))) = Weather_API_Error
          \<and> requested (snd (get_historical_data net city_name lat lon s)) = requested s + 1
          \<and> slept (snd (get_historical_data net city_name lat lon s)) = slept s)
       \<and> (net (Weather_url lat lon) (requested s) = Http 200 (Some w) \<and> truthy w \<and>
          net (Air_url lat lon) (requested s + 1) = Http 200 (Some v) \<longrightarrow>
            fst (get_historical_data net city_name lat lon s) = []
          \<and> last (printed (snd (get_historical_data net city_name lat lon s))) = Air_Quality_API_Error
          \<and> requested (snd (get_historical_data net city_name lat lon s)) = requested s + 2
          \<and> slept (snd (get_historical_data net city_name lat lon s)) = slept s @ [1])
       \<and> ((\<forall>i<5. \<exists>b. net (Weather_url lat lon) (requested s + i) = Http 500 b) \<longrightarrow>
            fst (get_historical_data net city_name lat lon s) = []
          \<and> last (printed (snd (get_historical_data net city_name lat lon s))) = Weather_API_Error)"
proof (intro conjI impI)
  let ?s0 = "print (Fetching city_name) s"
  have r0: "requested ?s0 = requested s" by (simp add: print_def)
  {
    assume h: "net (Weather_url lat lon) (requested s) = Http 200 (Some v)"
    have f: "safe_request net (Weather_url lat lon) 5 10 ?s0 = (v, ?s0\<lparr>requested := Suc (requested ?s0)\<rparr>)"
      using h by (intro first_answer_200) (simp add: r0)
    have g: "get_historical_data net city_name lat lon s =
        ([], print Weather_API_Error (?s0\<lparr>requested := Suc (requested ?s0)\<rparr>))"
      using weather_no_data [of net lat lon city_name s] assms by (simp add: f)
    show "fst (get_historical_data net city_name lat lon s) = []"
      and "last (printed (snd (get_historical_data net city_name lat lon s))) = Weather_API_Error"
      and "requested (snd (get_historical_data net city_name lat lon s)) = requested s + 1"
      and "slept (snd (get_historical_data net city_name lat lon s)) = slept s"
      by (simp_all add: g print_def)
  }
  {
    assume h: "net (Weather_url lat lon) (requested s) = Http 200 (Some w) \<and> truthy w \<and>
          net (Air_url lat lon) (requested s + 1) = Http 200 (Some v)"
    let ?s1 = "?s0\<lparr>requested := Suc (requested ?s0)\<rparr>"
    have f: "safe_request net (Weather_url lat lon) 5 10 ?s0 = (w, ?s1)"
      using h by (intro first_answer_200) (simp add: r0)
    have r1: "requested (sleep 1 ?s1) = requested s + 1" by (simp add: sleep_def print_def)
    have f2: "safe_request net (Air_url lat lon) 5 10 (sleep 1 ?s1) =
        (v, (sleep 1 ?s1)\<lparr>requested := Suc (requested (sleep 1 ?s1))\<rparr>)"
      using h by (intro first_answer_200) (simp only: r1)
    have g: "get_historical_data net city_name lat lon s =
        ([], print Air_Quality_API_Error ((sleep 1 ?s1)\<lparr>requested := Suc (requested (sleep 1 ?s1))\<rparr>))"
      using air_no_data [of net lat lon city_name s] assms h by (simp only: f f2 fst_conv snd_conv) simp
    show "fst (get_historical_data net city_name lat lon s) = []"
      and "last (printed (snd (get_historical_data net city_name lat lon s))) = Air_Quality_API_Error"
      and "requested (snd (get_historical_data net city_name lat lon s)) = requested s + 2"
      and "slept (snd (get_historical_data net city_name lat lon s)) = slept s @ [1]"
      by (simp_all add: g print_def sleep_def)
  }
  {
    assume h: "\<forall>i<5. \<exists>b. net (Weather_url lat lon) (requested s + i) = Http 500 b"
    then have "\<forall>i<5. \<exists>b. net (Weather_url lat lon) (requested ?s0 + i) = Http 500 b"
      by (simp only: r0)
    from this attempts_server_errors [where left = 5 and retries = 5 and w = 10
        and net = net and u = "Weather_url lat lon" and s = "?s0"]
    have "fst (safe_request net (Weather_url lat lon) 5 10 ?s0) = JNull"
      by (simp add: safe_request_def)
    then have g: "get_historical_data net city_name lat lon s =
        ([], print Weather_API_Error (snd (safe_request net (Weather_url lat lon) 5 10 ?s0)))"
      using weather_no_data [of net lat lon city_name s] by simp
    show "fst (get_historical_data net city_name lat lon s) = []"
      and "last (printed (snd (get_historical_data net city_name lat lon s))) = Weather_API_Error"
      by (simp_all add: g print_def)
  }
qed

theorem falsy_body_is_no_data_witness:
  "fst (get_historical_data (answering (JObj []) ex_a_data) ''Warszawa'' 52.23 21.01 initial_state) = []
   \<and> last (printed (snd (get_historical_data (answering (JObj []) ex_a_data) ''Warszawa'' 52.23 21.01 initial_state))) = Weather_API_Error
   \<and> fst (get_historical_data (answering ex_w_data (JArr [])) ''Warszawa'' 52.23 21.01 initial_state) = []
   \<and> last (printed (snd (get_historical_data (answering ex_w_data (JArr [])) ''Warszawa'' 52.23 21.01 initial_state))) = Air_Quality_API_Error
   \<and> fst (get_historical_data (\<lambda>u n. Http 500 None) ''Warszawa'' 52.23 21.01 initial_state) = []
   \<and> last (printed (snd (get_historical_data (\<lambda>u n. Http 500 None) ''Warszawa'' 52.23 21.01 initial_state))) = Weather_API_Error"
proof -
  have a: "\<not> truthy (JObj [])" and b: "\<not> truthy (JArr [])" and c: "truthy ex_w_data"
    by (simp_all add: ex_w_data_def)
  show ?thesis
    using falsy_body_is_no_data [OF a, of "answering (JObj []) ex_a_data" "52.23" "21.01" initial_state "''Warszawa''" ex_w_data]
      falsy_body_is_no_data [OF b, of "answering ex_w_data (JArr [])" "52.23" "21.01" initial_state "''Warszawa''" ex_w_data]
      falsy_body_is_no_data [OF a, of "\<lambda>u n. Http 500 None" "52.23" "21.01" initial_state "''Warszawa''" ex_w_data]
      c
    by (simp add: answering_def)
qed

section \<open>A run with no successful city\<close>

text \<open>
  Claim C8. When no city gave a non-empty frame, \<^verbatim>\<open>run_scraper\<close> leaves the files as they
  were (the CSV is not written) and ends with the message of overall failure.
  \<^verbatim>\<open>run_scraper\<close> is a total function into states: every exception of the source is
  caught inside \<^verbatim>\<open>safe_request\<close> and \<^verbatim>\<open>get_historical_data\<close>.
\<close>

theorem no_city_no_file:
  assumes "fst (cities_loop net (length cities) 1 cities [] (print Starting s)) = []"
  shows "files (run_scraper net cities s) = files s
       \<and> last (printed (run_scraper net cities s)) = Failed_to_fetch_data"
proof -
  obtain all_data s1 where l: "cities_loop net (length cities) 1 cities [] (print Starting s) = (all_data, s1)"
    by (cases "cities_loop net (length cities) 1 cities [] (print Starting s)") auto
  with assms have e: "all_data = []" by simp
  have "files s1 = files s"
    using files_cities_loop [of net "length cities" 1 cities "[]" "print Starting s"]
    unfolding l by (simp add: files_print)
  then show ?thesis
    by (simp add: run_scraper_def l e files_print printed_print del: One_nat_def)
qed

lemma all_500_city:
  assumes "\<forall>u n. \<exists>b. net u n = Http 500 b"
  shows "fst (get_historical_data net c lat lon s) = []"
proof -
  let ?s0 = "print (Fetching c) s"
  have "\<forall>i<5. \<exists>b. net (Weather_url lat lon) (requested ?s0 + i) = Http 500 b"
    using assms by blast
  from this attempts_server_errors [where left = 5 and retries = 5 and w = 10
      and net = net and u = "Weather_url lat lon" and s = "?s0"]
  have "fst (safe_request net (Weather_url lat lon) 5 10 ?s0) = JNull"
    by (simp add: safe_request_def)
  then show ?thesis
    using weather_no_data [of net lat lon c s] by simp
qed

lemma all_500_loop:
  assumes "\<forall>u n. \<exists>b. net u n = Http 500 b"
  shows "fst (cities_loop net n i cs all_data s) = all_data"
proof (induction cs arbitrary: i s)
  case Nil
  show ?case by simp
next
  case (Cons c cs)
  obtain city_name lat lon where c: "c = (city_name, lat, lon)" by (cases c) auto
  obtain df s1 where g: "get_historical_data net city_name lat lon (print (Progress i n) s) = (df, s1)"
    by (cases "get_historical_data net city_name lat lon (print (Progress i n) s)") auto
  have "df = []"
    using all_500_city [OF assms, of city_name lat lon "print (Progress i n) s"] by (simp add: g)
  then show ?case
    by (simp add: c g Cons.IH)
qed

theorem no_city_no_file_witness:
  "files (run_scraper (\<lambda>u n. Http 500 None) CITIES initial_state) = Map.empty
   \<and> last (printed (run_scraper (\<lambda>u n. Http 500 None) CITIES initial_state)) = Failed_to_fetch_data"
proof -
  have "\<forall>u n. \<exists>b. (\<lambda>u n. Http 500 None) u n = Http 500 b"
    by simp
  then have h: "fst (cities_loop (\<lambda>u n. Http 500 None) (length CITIES) 1 CITIES []
      (print Starting initial_state)) = []"
    by (rule all_500_loop)
  have "files initial_state = Map.empty" by (simp add: initial_state_def)
  with no_city_no_file [OF h] show ?thesis by simp
qed

chapter \<open>Properties of the Aggregator\<close>

section \<open>Group-by\<close>

lemma keys_groupby_mean: "map fst (groupby_mean key col df) = sort (remdups (map key df))"
  by (simp add: groupby_mean_def o_def)

lemma set_keys_groupby_mean: "set (map fst (groupby_mean key col df)) = key ` set df"
  by (simp only: keys_groupby_mean set_sort set_remdups set_map)

lemma groupby_mean_entry:
  "(k, m) \<in> set (groupby_mean key col df) \<Longrightarrow>
   m = nanmean (map col (filter (\<lambda>r. key r = k) df))"
  by (auto simp: groupby_mean_def)

lemma groupby_mean_group:
  "r \<in> set df \<Longrightarrow>
   (key r, nanmean (map col (filter (\<lambda>x. key x = key r) df))) \<in> set (groupby_mean key col df)"
  by (auto simp: groupby_mean_def)

lemma classify_scenario_reals:
  "temperature_2m_mean r = Some t \<Longrightarrow> wind_speed_10m_max r = Some w \<Longrightarrow>
   classify_scenario r =
     (if t < 5 \<and> w < 10 then ''1. ZIMNO I BEZWIETRZNIE''
      else if t < 5 \<and> w > 20 then ''2. ZIMNO Z WIATREM''
      else if t > 15 then ''3. LATO''
      else ''4. INNE'')"
  by (simp add: classify_scenario_def lt_def gt_def Let_def)

lemma classify_scenario_total:
  "classify_scenario r \<in> {''1. ZIMNO I BEZWIETRZNIE'', ''2. ZIMNO Z WIATREM'', ''3. LATO'', ''4. INNE''}"
  by (simp add: classify_scenario_def Let_def)

lemma keys_scenarios:
  "set (map fst (scenarios df)) = classify_scenario ` set df - {''4. INNE''}"
proof -
  have "set (map fst (scenarios df)) =
      {k \<in> set (map fst (groupby_mean classify_scenario pm10 df)). k \<noteq> ''4. INNE''}"
    unfolding scenarios_def by (simp only: set_map set_filter) force
  also have "\<dots> = classify_scenario ` set df - {''4. INNE''}"
    by (simp only: set_keys_groupby_mean) blast
  finally show ?thesis .
qed

section \<open>The scenario classification\<close>

text \<open>
  Claim C3. \<^verbatim>\<open>classify_scenario\<close> is a total function of the mean temperature and the
  maximal wind, deciding in the order of the source: below 5 degrees and below 10 km/h is
  cold and calm; else below 5 degrees and above 20 km/h is cold and windy; else above 15
  degrees is the summer baseline; anything else is the fourth label ("other"), also when
  a cell is NaN. The three examples of the claim are instances. The keys of the scenario
  table are the labels of the rows without the fourth label.
\<close>

theorem scenario_classification:
  "(temperature_2m_mean r = Some t \<and> wind_speed_10m_max r = Some w \<longrightarrow>
      classify_scenario r =
        (if t < 5 \<and> w < 10 then ''1. ZIMNO I BEZWIETRZNIE''
         else if t < 5 \<and> w > 20 then ''2. ZIMNO Z WIATREM''
         else if t > 15 then ''3. LATO''
         else ''4. INNE''))
   \<and> classify_scenario r \<in>
       {''1. ZIMNO I BEZWIETRZNIE'', ''2. ZIMNO Z WIATREM'', ''3. LATO'', ''4. INNE''}
   \<and> (temperature_2m_mean r = Some 0 \<and> wind_speed_10m_max r = Some 5 \<longrightarrow>
        classify_scenario r = ''1. ZIMNO I BEZWIETRZNIE'')
   \<and> (temperature_2m_mean r = Some 0 \<and> wind_speed_10m_max r = Some 25 \<longrightarrow>
        classify_scenario r = ''2. ZIMNO Z WIATREM'')
   \<and> (temperature_2m_mean r = Some 20 \<and> wind_speed_10m_max r = Some 25 \<longrightarrow>
        classify_scenario r = ''3. LATO'')
   \<and> set (map fst (scenarios df)) = classify_scenario ` set df - {''4. INNE''}"
proof (intro conjI impI)
  assume "temperature_2m_mean r = Some t \<and> wind_speed_10m_max r = Some w"
  then show "classify_scenario r =
        (if t < 5 \<and> w < 10 then ''1. ZIMNO I BEZWIETRZNIE''
         else if t < 5 \<and> w > 20 then ''2. ZIMNO Z WIATREM''
         else if t > 15 then ''3. LATO''
         else ''4. INNE'')"
    using classify_scenario_reals by blast
next
  show "classify_scenario r \<in>
       {''1. ZIMNO I BEZWIETRZNIE'', ''2. ZIMNO Z WIATREM'', ''3. LATO'', ''4. INNE''}"
    by (rule classify_scenario_total)
next
  assume "temperature_2m_mean r = Some 0 \<and> wind_speed_10m_max r = Some 5"
  then show "classify_scenario r = ''1. ZIMNO I BEZWIETRZNIE''"
    by (simp add: classify_scenario_def lt_def gt_def Let_def)
next
  assume "temperature_2m_mean r = Some 0 \<and> wind_speed_10m_max r = Some 25"
  then show "classify_scenario r = ''2. ZIMNO Z WIATREM''"
    by (simp add: classify_scenario_def lt_def gt_def Let_def)
next
  assume "temperature_2m_mean r = Some 20 \<and> wind_speed_10m_max r = Some 25"
  then show "classify_scenario r = ''3. LATO''"
    by (simp add: classify_scenario_def lt_def gt_def Let_def)
next
  show "set (map fst (scenarios df)) = classify_scenario ` set df - {''4. INNE''}"
    by (rule keys_scenarios)
qed

theorem scenario_classification_witness:
  "classify_scenario (mk_obs 2016 1 1 0 5 60 ''Katowice'') = ''1. ZIMNO I BEZWIETRZNIE''
   \<and> classify_scenario (mk_obs 2020 1 1 0 25 70 ''Radom'') = ''2. ZIMNO Z WIATREM''
   \<and> classify_scenario (mk_obs 2020 1 4 20 25 10 ''Radom'') = ''3. LATO''
   \<and> classify_scenario (mk_obs 2020 7 4 10 12.5 55 ''Katowice'') = ''4. INNE''
   \<and> ''4. INNE'' \<notin> set (map fst (scenarios ex_rows))"
proof -
  have a: "temperature_2m_mean (mk_obs 2016 1 1 0 5 60 ''Katowice'') = Some 0 \<and>
           wind_speed_10m_max (mk_obs 2016 1 1 0 5 60 ''Katowice'') = Some 5"
    and b: "temperature_2m_mean (mk_obs 2020 1 1 0 25 70 ''Radom'') = Some 0 \<and>
           wind_speed_10m_max (mk_obs 2020 1 1 0 25 70 ''Radom'') = Some 25"
    and c: "temperature_2m_mean (mk_obs 2020 1 4 20 25 10 ''Radom'') = Some 20 \<and>
           wind_speed_10m_max (mk_obs 2020 1 4 20 25 10 ''Radom'') = Some 25"
    and d: "temperature_2m_mean (mk_obs 2020 7 4 10 12.5 55 ''Katowice'') = Some 10 \<and>
           wind_speed_10m_max (mk_obs 2020 7 4 10 12.5 55 ''Katowice'') = Some 12.5"
    by (simp_all add: mk_obs_def)
  show ?thesis
    using scenario_classification [of "mk_obs 2016 1 1 0 5 60 ''Katowice''" 0 5 ex_rows] a
      scenario_classification [of "mk_obs 2020 1 1 0 25 70 ''Radom''" 0 25 ex_rows] b
      scenario_classification [of "mk_obs 2020 1 4 20 25 10 ''Radom''" 20 25 ex_rows] c
      scenario_classification [of "mk_obs 2020 7 4 10 12.5 55 ''Katowice''" 10 "12.5" ex_rows] d
    by simp
qed

section \<open>The New Year window\<close>

lemma get_newyear_label_window:
  "(get_newyear_label r \<noteq> None) =
     (Month r = 12 \<and> day (time r) \<in> {29, 30, 31} \<or> Month r = 1 \<and> day (time r) \<in> {1, 2, 3})"
  by (auto simp: get_newyear_label_def Let_def)

lemma labelled_rows_filter:
  "List.map_filter (\<lambda>r. map_option (\<lambda>l. (l, pm10 r)) (get_newyear_label r))
     (filter (\<lambda>r. get_newyear_label r \<noteq> None) df) =
   List.map_filter (\<lambda>r. map_option (\<lambda>l. (l, pm10 r)) (get_newyear_label r)) df"
  by (induction df) (auto simp: List.map_filter_def)

lemma new_year_stats_window:
  "new_year_stats (filter (\<lambda>r. get_newyear_label r \<noteq> None) df) = new_year_stats df"
  by (simp only: new_year_stats_def labelled_rows_filter)

lemma set_labelled_rows:
  "set (List.map_filter (\<lambda>r. map_option (\<lambda>l. (l, pm10 r)) (get_newyear_label r)) df) =
     {(l, pm10 r) | l r. r \<in> set df \<and> get_newyear_label r = Some l}"
  by (induction df) (auto simp: List.map_filter_def)

lemma keys_new_year_stats:
  "set (map fst (new_year_stats df)) = {l. \<exists>r\<in>set df. get_newyear_label r = Some l}"
  unfolding new_year_stats_def
  by (simp only: set_keys_groupby_mean set_labelled_rows) force

text \<open>
  Claim C6. A row has a New Year label exactly when it is dated December 29 to 31 or
  January 1 to 3; the summary is computed from the labelled rows only and its groups are
  the labels that occur. A row dated 2020-01-04 has no label, and the summary is the same
  with and without it; a row dated 2020-01-01 has the label of New Year's Day
  (\<^verbatim>\<open>4. NOWY ROK\<close>), and the summary of a table that holds it has that group.
\<close>

theorem new_year_window:
  "(get_newyear_label r \<noteq> None) =
     (Month r = 12 \<and> day (time r) \<in> {29, 30, 31} \<or> Month r = 1 \<and> day (time r) \<in> {1, 2, 3})
   \<and> new_year_stats (filter (\<lambda>r. get_newyear_label r \<noteq> None) df) = new_year_stats df
   \<and> set (map fst (new_year_stats df)) = {l. \<exists>r\<in>set df. get_newyear_label r = Some l}
   \<and> (time r = \<lparr>year = 2020, month = 1, day = 4\<rparr> \<longrightarrow>
        get_newyear_label r = None \<and> new_year_stats (xs @ r # ys) = new_year_stats (xs @ ys))
   \<and> (time r = \<lparr>year = 2020, month = 1, day = 1\<rparr> \<longrightarrow>
        get_newyear_label r = Some ''4. NOWY ROK'' \<and>
        (r \<in> set df \<longrightarrow> ''4. NOWY ROK'' \<in> set (map fst (new_year_stats df))))"
proof (intro conjI impI)
  show "(get_newyear_label r \<noteq> None) =
     (Month r = 12 \<and> day (time r) \<in> {29, 30, 31} \<or> Month r = 1 \<and> day (time r) \<in> {1, 2, 3})"
    by (rule get_newyear_label_window)
  show "new_year_stats (filter (\<lambda>r. get_newyear_label r \<noteq> None) df) = new_year_stats df"
    by (rule new_year_stats_window)
  show "set (map fst (new_year_stats df)) = {l. \<exists>r\<in>set df. get_newyear_label r = Some l}"
    by (rule keys_new_year_stats)
next
  assume t: "time r = \<lparr>year = 2020, month = 1, day = 4\<rparr>"
  then show n: "get_newyear_label r = None"
    by (simp add: get_newyear_label_def Month_def)
  have "filter (\<lambda>r. get_newyear_label r \<noteq> None) (xs @ r # ys) =
        filter (\<lambda>r. get_newyear_label r \<noteq> None) (xs @ ys)"
    using n by simp
  then show "new_year_stats (xs @ r # ys) = new_year_stats (xs @ ys)"
    using new_year_stats_window [of "xs @ r # ys"] new_year_stats_window [of "xs @ ys"]
    by simp
next
  assume t: "time r = \<lparr>year = 2020, month = 1, day = 1\<rparr>"
  then show l: "get_newyear_label r = Some ''4. NOWY ROK''"
    by (simp add: get_newyear_label_def Month_def)
  assume "r \<in> set df"
  with l show "''4. NOWY ROK'' \<in> set (map fst (new_year_stats df))"
    by (simp only: keys_new_year_stats) blast
qed

theorem new_year_window_witness:
  "get_newyear_label (mk_obs 2020 1 4 20 25 10 ''Radom'') = None
   \<and> new_year_stats ([mk_obs 2020 1 1 0 25 70 ''Radom''] @ mk_obs 2020 1 4 20 25 10 ''Radom'' # []) =
       new_year_stats ([mk_obs 2020 1 1 0 25 70 ''Radom''] @ [])
   \<and> get_newyear_label (mk_obs 2020 1 1 0 25 70 ''Radom'') = Some ''4. NOWY ROK''
   \<and> ''4. NOWY ROK'' \<in> set (map fst (new_year_stats ex_rows))"
proof -
  have a: "time (mk_obs 2020 1 4 20 25 10 ''Radom'') = \<lparr>year = 2020, month = 1, day = 4\<rparr>"
    and b: "time (mk_obs 2020 1 1 0 25 70 ''Radom'') = \<lparr>year = 2020, month = 1, day = 1\<rparr>"
    by (simp_all add: mk_obs_def)
  have c: "mk_obs 2020 1 1 0 25 70 ''Radom'' \<in> set ex_rows"
    by (simp add: ex_rows_def)
  show ?thesis
    using new_year_window [of "mk_obs 2020 1 4 20 25 10 ''Radom''" ex_rows "[mk_obs 2020 1 1 0 25 70 ''Radom'']" "[]"]
      new_year_window [of "mk_obs 2020 1 1 0 25 70 ''Radom''" ex_rows "[]" "[]"] a b c
    by blast
qed

section \<open>The year filter\<close>







section \<open>The ranking of cities\<close>

lemma keys_groupby_size: "map fst (groupby_size key df) = sort (remdups (map key df))"
  by (simp add: groupby_size_def o_def)

lemma groupby_size_entry:
  "(k, n) \<in> set (groupby_size key df) \<Longrightarrow>
   n = length (filter (\<lambda>r. key r = k) df) \<and> k \<in> key ` set df"
  by (auto simp: groupby_size_def)

lemma groupby_size_positive:
  assumes "(k, n) \<in> set (groupby_size key df)"
  shows "0 < n"
proof -
  from groupby_size_entry [OF assms]
  obtain r where "r \<in> set df" "key r = k" and n: "n = length (filter (\<lambda>r. key r = k) df)"
    by auto
  then have "r \<in> set (filter (\<lambda>r. key r = k) df)" by simp
  then have "filter (\<lambda>r. key r = k) df \<noteq> []" by (metis empty_iff list.set(1))
  then show ?thesis by (simp add: n)
qed

lemma groupby_size_member:
  "k \<in> key ` set df \<Longrightarrow> (k, length (filter (\<lambda>r. key r = k) df)) \<in> set (groupby_size key df)"
  by (auto simp: groupby_size_def)

lemma descending:
  "sorted (map (\<lambda>g. - int (snd g)) zs) \<Longrightarrow> sorted (rev (map snd zs))"
proof -
  assume "sorted (map (\<lambda>g. - int (snd g)) zs)"
  then have "sorted_wrt (\<lambda>x y. snd y \<le> snd x) zs"
    by (simp add: sorted_map)
  then have "sorted_wrt (\<lambda>x y. y \<le> x) (map snd zs)"
    by (simp add: sorted_wrt_map)
  then show ?thesis
    by (simp add: sorted_wrt_rev)
qed

lemma gt_iff: "gt x c = (\<exists>v. x = Some v \<and> v > c)"
  by (cases x) (simp_all add: gt_def)

lemma distinct_keys_sort_key:
  "distinct (map g (sort_key f xs)) = distinct (map g xs)"
  by (simp add: distinct_map)

lemma top_of_sorted:
  assumes "sorted (map f S)" and "x \<in> set (take n S)" and "y \<in> set (drop n S)"
  shows "f x \<le> (f y :: int)"
proof -
  have "sorted (map f (take n S) @ map f (drop n S))"
    using assms(1) by (simp only: map_append [symmetric] append_take_drop_id)
  then show ?thesis
    using assms(2,3) by (simp add: sorted_append)
qed

text \<open>
  Claim C7. Every row of the ranking gives a city with its number of days with PM10
  strictly above 50, which is positive; no city occurs twice; the counts are in descending
  order; the number of rows is the smaller of ten and the number of cities with such a day,
  so it is exactly ten when at least eleven cities have one; and no city left out has more
  such days than a city in the ranking. The order of rows with equal counts is not part of
  the statement.
\<close>

theorem top_polluted_cities:
  "(\<forall>g\<in>set (city_stats df).
      snd g = length (filter (\<lambda>r. city r = fst g \<and> (\<exists>v. pm10 r = Some v \<and> v > 50)) df)
      \<and> 0 < snd g)
   \<and> distinct (map fst (city_stats df))
   \<and> sorted (rev (map snd (city_stats df)))
   \<and> length (city_stats df) =
       min 10 (card (city ` {r \<in> set df. \<exists>v. pm10 r = Some v \<and> v > 50}))
   \<and> (11 \<le> card (city ` {r \<in> set df. \<exists>v. pm10 r = Some v \<and> v > 50}) \<longrightarrow>
        length (city_stats df) = 10)
   \<and> (\<forall>c. c \<notin> set (map fst (city_stats df)) \<longrightarrow>
        (\<forall>g\<in>set (city_stats df).
           length (filter (\<lambda>r. city r = c \<and> (\<exists>v. pm10 r = Some v \<and> v > 50)) df) \<le> snd g))"
proof -
  define smog where "smog = filter (\<lambda>r. gt (pm10 r) 50) df"
  define G where "G = groupby_size city smog"
  define f where "f = (\<lambda>g :: string \<times> nat. - int (snd g))"
  define S where "S = sort_key f G"
  have cs: "city_stats df = take 10 S"
    by (simp add: city_stats_def S_def G_def f_def smog_def)
  have count: "\<And>c. length (filter (\<lambda>r. city r = c) smog) =
      length (filter (\<lambda>r. city r = c \<and> (\<exists>v. pm10 r = Some v \<and> v > 50)) df)"
    by (simp add: smog_def gt_iff conj_commute)
  have setS: "set S = set G" by (simp add: S_def)
  have sub: "set (city_stats df) \<subseteq> set G"
    unfolding cs using set_take_subset [of 10 S] setS by simp
  have entries: "\<forall>g\<in>set (city_stats df).
      snd g = length (filter (\<lambda>r. city r = fst g \<and> (\<exists>v. pm10 r = Some v \<and> v > 50)) df)
      \<and> 0 < snd g"
  proof
    fix g assume "g \<in> set (city_stats df)"
    with sub have "(fst g, snd g) \<in> set (groupby_size city smog)" by (auto simp: G_def)
    from groupby_size_entry [OF this] groupby_size_positive [OF this]
    show "snd g = length (filter (\<lambda>r. city r = fst g \<and> (\<exists>v. pm10 r = Some v \<and> v > 50)) df)
      \<and> 0 < snd g"
      by (simp add: count)
  qed
  have "distinct (map fst G)"
    by (simp add: G_def keys_groupby_size)
  then have "distinct (map fst S)"
    by (simp only: S_def distinct_keys_sort_key)
  then have dist: "distinct (map fst (city_stats df))"
    using distinct_take [of "map fst S" 10] by (simp add: cs take_map)
  have sortedS: "sorted (map f S)"
    by (simp add: S_def)
  then have "sorted (map f (take 10 S))"
    using sorted_wrt_take [of "(\<le>)" "map f S" 10] by (simp add: take_map)
  then have desc: "sorted (rev (map snd (city_stats df)))"
    unfolding cs f_def by (rule descending)
  have "length G = length (remdups (map city smog))"
    by (simp add: G_def groupby_size_def)
  also have "\<dots> = card (city ` set smog)"
    by (simp add: length_remdups_card_conv)
  also have "set smog = {r \<in> set df. \<exists>v. pm10 r = Some v \<and> v > 50}"
    by (auto simp: smog_def gt_iff)
  finally have lenG: "length G = card (city ` {r \<in> set df. \<exists>v. pm10 r = Some v \<and> v > 50})" .
  have len: "length (city_stats df) =
      min 10 (card (city ` {r \<in> set df. \<exists>v. pm10 r = Some v \<and> v > 50}))"
    by (simp add: cs S_def lenG [symmetric] min.commute)
  have top: "\<forall>c. c \<notin> set (map fst (city_stats df)) \<longrightarrow>
        (\<forall>g\<in>set (city_stats df).
           length (filter (\<lambda>r. city r = c \<and> (\<exists>v. pm10 r = Some v \<and> v > 50)) df) \<le> snd g)"
  proof (intro allI impI ballI)
    fix c g
    assume c: "c \<notin> set (map fst (city_stats df))" and g: "g \<in> set (city_stats df)"
    let ?n = "length (filter (\<lambda>r. city r = c) smog)"
    show "length (filter (\<lambda>r. city r = c \<and> (\<exists>v. pm10 r = Some v \<and> v > 50)) df) \<le> snd g"
    proof (cases "c \<in> city ` set smog")
      case False
      then have "filter (\<lambda>r. city r = c) smog = []"
        by (auto simp: filter_empty_conv)
      then show ?thesis by (simp add: count [symmetric])
    next
      case True
      then have "(c, ?n) \<in> set G"
        unfolding G_def by (rule groupby_size_member)
      then have "(c, ?n) \<in> set (take 10 S @ drop 10 S)"
        by (simp only: append_take_drop_id setS)
      then have "(c, ?n) \<in> set (take 10 S) \<union> set (drop 10 S)"
        by (simp only: set_append)
      moreover have "(c, ?n) \<notin> set (take 10 S)"
        using c unfolding cs by force
      ultimately have "(c, ?n) \<in> set (drop 10 S)" by blast
      with sortedS g have "f g \<le> f (c, ?n)"
        unfolding cs by (intro top_of_sorted)
      then show ?thesis by (simp add: f_def count [symmetric])
    qed
  qed
  have eleven: "11 \<le> card (city ` {r \<in> set df. \<exists>v. pm10 r = Some v \<and> v > 50}) \<longrightarrow>
        length (city_stats df) = 10"
    using len by simp
  show ?thesis
    by (intro conjI entries dist desc len eleven top)
qed

lemma ex_smog_cities:
  "map city (filter (\<lambda>r. gt (pm10 r) 50) ex_smog_days) =
     [''Warszawa'', ''Katowice'', ''Radom'', ''Lublin'', ''Gdynia'', ''Kielce'', ''Gliwice'',
      ''Zabrze'', ''Szczecin'', ''Bydgoszcz'', ''Sosnowiec'', ''Zabrze'']"
  by (simp add: ex_smog_days_def mk_obs_def gt_def)

theorem top_polluted_cities_witness:
  "11 \<le> card (city ` {r \<in> set ex_smog_days. \<exists>v. pm10 r = Some v \<and> v > 50})
   \<and> length (city_stats ex_smog_days) = 10
   \<and> sorted (rev (map snd (city_stats ex_smog_days)))"
proof -
  have "city ` {r \<in> set ex_smog_days. \<exists>v. pm10 r = Some v \<and> v > 50} =
      set (map city (filter (\<lambda>r. gt (pm10 r) 50) ex_smog_days))"
    by (auto simp: gt_iff)
  then have "card (city ` {r \<in> set ex_smog_days. \<exists>v. pm10 r = Some v \<and> v > 50}) =
      length (remdups (map city (filter (\<lambda>r. gt (pm10 r) 50) ex_smog_days)))"
    by (simp only: length_remdups_card_conv)
  also have "\<dots> = 11"
    by (simp only: ex_smog_cities) simp
  finally have h: "11 \<le> card (city ` {r \<in> set ex_smog_days. \<exists>v. pm10 r = Some v \<and> v > 50})"
    by simp
  with top_polluted_cities [of ex_smog_days] show ?thesis by blast
qed

end
